theory Spec2Isabelle
  imports Main "HOL-Library.Word"
begin

section \<open>Domain values\<close>

text \<open>
  The actor is the Rust code that the patch scripts write into \<open>p2p/src/network.rs\<close>:
  \<open>run\<close> and \<open>handle_command\<close> (\<open>update_network.py\<close>), the gossip arm of
  \<open>handle_swarm_event\<close> (\<open>update_message_handling.py\<close>) and the fields of the node
  (\<open>update_network_new.py\<close>). The declarations of the domain types are not part of these
  files: a type has here what the source reads or writes of it. Payloads and hashes are
  byte strings. Heights, counts and nonces are integers of a width the source does not
  show; they are only moved around, never computed with, and are natural numbers here.
  A peer is known by an identifier. Of a block the source reads \<open>block.header.height\<close>;
  the rest of a block, and a transaction, are opaque bytes.
\<close>

type_synonym bytes = "8 word list"
type_synonym peer_id = nat
type_synonym message_id = bytes
type_synonym hash = bytes
type_synonym topic = string
type_synonym error_text = string

record header =
  height :: nat

record block =
  header :: header
  body :: bytes

datatype transaction = Transaction bytes

section \<open>Wire messages, commands and events\<close>

text \<open>
  The variants and fields of \<open>Message\<close>, \<open>NetworkCommand\<close> and \<open>NetworkEvent\<close> are those of
  the literals and patterns of the source. A struct literal and a struct pattern of Rust
  are keyed by field name. Seven of the eight variants of \<open>Message\<close> are named with the
  same fields wherever the source builds or matches them, and are plain constructors
  here. \<open>Status\<close> is built as \<open>Message::Status { height, best_hash }\<close> in \<open>handle_command\<close>
  and matched as \<open>Message::Status { height, best_block_hash, .. }\<close> in the gossip arm, so
  its value keeps the field names: it is the list of its named fields, in the order of
  the literal.
\<close>

datatype field_value = HeightValue nat | HashValue hash

datatype message =
    NewBlock block
  | NewTransaction transaction
  | Status "(string \<times> field_value) list"
  | GetBlocks nat nat
  | Blocks "block list"
  | GetStatus
  | Ping nat
  | Pong nat

datatype command =
    BroadcastBlock block
  | BroadcastTransaction transaction
  | SendStatus peer_id nat hash
  | RequestBlocks peer_id nat nat

datatype event =
    BlockReceived peer_id block
  | TransactionReceived peer_id transaction
  | StatusReceived peer_id nat hash
  | BlocksRequested peer_id nat nat

section \<open>Observable effects\<close>

text \<open>
  What a handler does besides changing the node: the log lines of \<open>info!\<close> and \<open>warn!\<close>,
  the calls of \<open>gossipsub.publish\<close> and the calls of \<open>event_tx.send\<close>, in program order.
  An error is kept as the text its \<open>Display\<close> gives, the only use the source makes of it.
\<close>

datatype log_level = Info | Warn

datatype log_line =
    StartingEventLoop
  | FailedToBroadcastBlock error_text
  | BroadcastedBlock nat
  | FailedToBroadcastTransaction error_text
  | FailedToSendStatus error_text
  | FailedToRequestBlocks error_text
  | Received string peer_id
  | ReceivedGetStatus peer_id
  | ReceivedPing peer_id nat
  | ReceivedPong peer_id nat
  | FailedToDeserialize peer_id error_text

datatype effect =
    Log log_level log_line
  | Publish topic bytes
  | Send event

fun sent_events :: "effect list \<Rightarrow> event list" where
  "sent_events [] = []"
| "sent_events (Send ev # out) = ev # sent_events out"
| "sent_events (_ # out) = sent_events out"

fun publish_calls :: "effect list \<Rightarrow> (topic \<times> bytes) list" where
  "publish_calls [] = []"
| "publish_calls (Publish t data # out) = (t, data) # publish_calls out"
| "publish_calls (_ # out) = publish_calls out"

section \<open>The node\<close>

text \<open>
  The event channel is tokio's unbounded channel: \<open>send\<close> appends to the queue while the
  receiver is alive and returns the value back as an error once it has been dropped.
\<close>

record event_channel =
  receiver_alive :: bool
  queue :: "event list"

definition send :: "event_channel \<Rightarrow> event \<Rightarrow> (event + unit) \<times> event_channel" where
  "send ch ev =
     (if receiver_alive ch then (Inr (), ch\<lparr>queue := queue ch @ [ev]\<rparr>) else (Inl ev, ch))"

record 'sw node =
  swarm :: 'sw
  peers :: "(peer_id \<times> nat) list"
  event_tx :: event_channel
  blocks_topic :: topic
  transactions_topic :: topic

text \<open>
  What the handlers call and the source does not contain: the codec of \<open>Message\<close>
  (\<open>to_bytes\<close>, \<open>from_bytes\<close>, \<open>message_type\<close>), the gossipsub behaviour of the swarm
  (\<open>publish\<close>, which returns the message id or an error and the swarm after the call), and
  the arms of \<open>handle_swarm_event\<close> for the other transport events, which take the node
  and return it. They are parameters.
\<close>

record 'sw deps =
  to_bytes :: "message \<Rightarrow> error_text + bytes"
  from_bytes :: "bytes \<Rightarrow> error_text + message"
  message_type :: "message \<Rightarrow> string"
  publish :: "'sw \<Rightarrow> topic \<Rightarrow> bytes \<Rightarrow> (error_text + message_id) \<times> 'sw"
  other_arms :: "nat \<Rightarrow> 'sw node \<Rightarrow> 'sw node \<times> effect list"

section \<open>Command handling\<close>

text \<open>\<open>self.swarm.behaviour_mut().gossipsub.publish(topic, data)\<close>, with the call recorded.\<close>

definition gossipsub_publish ::
  "'sw deps \<Rightarrow> topic \<Rightarrow> bytes \<Rightarrow> 'sw node \<Rightarrow> (error_text + message_id) \<times> 'sw node" where
  "gossipsub_publish d t data st =
     (case publish d (swarm st) t data of (r, sw) \<Rightarrow> (r, st\<lparr>swarm := sw\<rparr>))"

fun handle_command :: "'sw deps \<Rightarrow> command \<Rightarrow> 'sw node \<Rightarrow> 'sw node \<times> effect list" where
  "handle_command d (BroadcastBlock block) st =
     (let message = NewBlock block in
      case to_bytes d message of
        Inr data \<Rightarrow>
          (case gossipsub_publish d (blocks_topic st) data st of
             (Inl e, st') \<Rightarrow>
               (st', [Publish (blocks_topic st) data, Log Warn (FailedToBroadcastBlock e)])
           | (Inr _, st') \<Rightarrow>
               (st', [Publish (blocks_topic st) data,
                      Log Info (BroadcastedBlock (height (header block)))]))
      | Inl _ \<Rightarrow> (st, []))"
| "handle_command d (BroadcastTransaction tx) st =
     (let message = NewTransaction tx in
      case to_bytes d message of
        Inr data \<Rightarrow>
          (case gossipsub_publish d (transactions_topic st) data st of
             (Inl e, st') \<Rightarrow>
               (st', [Publish (transactions_topic st) data,
                      Log Warn (FailedToBroadcastTransaction e)])
           | (Inr _, st') \<Rightarrow> (st', [Publish (transactions_topic st) data]))
      | Inl _ \<Rightarrow> (st, []))"
| "handle_command d (SendStatus peer_id hgt best_hash) st =
     (let message = Status [(''height'', HeightValue hgt), (''best_hash'', HashValue best_hash)] in
      case to_bytes d message of
        Inr data \<Rightarrow>
          (case gossipsub_publish d (blocks_topic st) data st of
             (Inl e, st') \<Rightarrow>
               (st', [Publish (blocks_topic st) data, Log Warn (FailedToSendStatus e)])
           | (Inr _, st') \<Rightarrow> (st', [Publish (blocks_topic st) data]))
      | Inl _ \<Rightarrow> (st, []))"
| "handle_command d (RequestBlocks peer_id start_height count) st =
     (let message = GetBlocks start_height count in
      case to_bytes d message of
        Inr data \<Rightarrow>
          (case gossipsub_publish d (blocks_topic st) data st of
             (Inl e, st') \<Rightarrow>
               (st', [Publish (blocks_topic st) data, Log Warn (FailedToRequestBlocks e)])
           | (Inr _, st') \<Rightarrow> (st', [Publish (blocks_topic st) data]))
      | Inl _ \<Rightarrow> (st, []))"

section \<open>Inbound gossip messages\<close>

text \<open>\<open>let _ = self.event_tx.send(ev)\<close>: the result of the send is discarded.\<close>

definition emit :: "event \<Rightarrow> 'sw node \<Rightarrow> 'sw node \<times> effect list" where
  "emit ev st = (case send (event_tx st) ev of (_, ch) \<Rightarrow> (st\<lparr>event_tx := ch\<rparr>, [Send ev]))"

text \<open>\<open>for block in blocks { let _ = self.event_tx.send(BlockReceived { peer_id, block }); }\<close>\<close>

fun for_blocks :: "peer_id \<Rightarrow> block list \<Rightarrow> 'sw node \<Rightarrow> 'sw node \<times> effect list" where
  "for_blocks peer_id [] st = (st, [])"
| "for_blocks peer_id (block # blocks) st =
     (case emit (BlockReceived peer_id block) st of
        (st1, out1) \<Rightarrow>
          (case for_blocks peer_id blocks st1 of (st2, out2) \<Rightarrow> (st2, out1 @ out2)))"

text \<open>
  The \<open>match msg\<close> of the gossip arm. The \<open>Status\<close> pattern binds the fields named
  \<open>height\<close> and \<open>best_block_hash\<close> and skips the others (\<open>..\<close>); a value of the declared
  variant always has them, and for a field list without them nothing is forwarded.
\<close>

fun dispatch :: "peer_id \<Rightarrow> message \<Rightarrow> 'sw node \<Rightarrow> 'sw node \<times> effect list" where
  "dispatch peer_id (NewBlock block) st = emit (BlockReceived peer_id block) st"
| "dispatch peer_id (NewTransaction tx) st = emit (TransactionReceived peer_id tx) st"
| "dispatch peer_id (Status named) st =
     (case (map_of named ''height'', map_of named ''best_block_hash'') of
        (Some (HeightValue hgt), Some (HashValue best_block_hash)) \<Rightarrow>
          emit (StatusReceived peer_id hgt best_block_hash) st
      | _ \<Rightarrow> (st, []))"
| "dispatch peer_id (GetBlocks start_height count) st =
     emit (BlocksRequested peer_id start_height count) st"
| "dispatch peer_id (Blocks blocks) st = for_blocks peer_id blocks st"
| "dispatch peer_id GetStatus st = (st, [Log Info (ReceivedGetStatus peer_id)])"
| "dispatch peer_id (Ping nonce) st = (st, [Log Info (ReceivedPing peer_id nonce)])"
| "dispatch peer_id (Pong nonce) st = (st, [Log Info (ReceivedPong peer_id nonce)])"

datatype swarm_event =
    GossipMessage peer_id message_id bytes
  | OtherSwarmEvent nat

fun handle_swarm_event ::
  "'sw deps \<Rightarrow> swarm_event \<Rightarrow> 'sw node \<Rightarrow> 'sw node \<times> effect list" where
  "handle_swarm_event d (GossipMessage peer_id message_id data) st =
     (case from_bytes d data of
        Inr msg \<Rightarrow>
          (case dispatch peer_id msg st of
             (st', out) \<Rightarrow> (st', Log Info (Received (message_type d msg) peer_id) # out))
      | Inl e \<Rightarrow> (st, [Log Warn (FailedToDeserialize peer_id e)]))"
| "handle_swarm_event d (OtherSwarmEvent k) st = other_arms d k st"

section \<open>The event loop\<close>

text \<open>
  The command channel is tokio's unbounded channel seen from the receiver: \<open>recv\<close> yields
  the next buffered command; with an empty buffer it yields \<open>None\<close> once every sender (every
  handle) has been dropped, and is pending while a sender is alive.
\<close>

datatype 'a poll = Pending | Ready 'a

record command_channel =
  senders :: nat
  buffered :: "command list"

definition recv :: "command_channel \<Rightarrow> (command option \<times> command_channel) poll" where
  "recv ch =
     (case buffered ch of
        c # cs \<Rightarrow> Ready (Some c, ch\<lparr>buffered := cs\<rparr>)
      | [] \<Rightarrow> if senders ch = 0 then Ready (None, ch) else Pending)"

text \<open>
  \<open>self.swarm.select_next_some()\<close>: the next transport event, pending while there is none.
  The stream of a swarm does not end.
\<close>

definition select_next_some :: "swarm_event list \<Rightarrow> (swarm_event \<times> swarm_event list) poll" where
  "select_next_some evs = (case evs of ev # rest \<Rightarrow> Ready (ev, rest) | [] \<Rightarrow> Pending)"

record 'sw world =
  node :: "'sw node"
  command_rx :: command_channel
  transport :: "swarm_event list"
  effects :: "effect list"

text \<open>
  \<open>tokio::select!\<close> over two branches and no \<open>else\<close>. A branch whose future is ready with a
  value that matches its pattern fires; ready with a value that does not match, the branch
  is disabled for this call; otherwise it is not ready. When both could fire, the order of
  polling (random in tokio) decides, here the flag \<open>first\<close>. With every branch disabled and
  no \<open>else\<close> the macro panics; with none firing and one not ready, the call waits.
\<close>

datatype 'a branch = Fires 'a | Disabled | NotReady

datatype ('a, 'b) selected = First 'a | Second 'b | AllDisabled | Wait

fun select2 :: "bool \<Rightarrow> 'a branch \<Rightarrow> 'b branch \<Rightarrow> ('a, 'b) selected" where
  "select2 first (Fires a) (Fires b) = (if first then First a else Second b)"
| "select2 first (Fires a) Disabled = First a"
| "select2 first (Fires a) NotReady = First a"
| "select2 first Disabled (Fires b) = Second b"
| "select2 first NotReady (Fires b) = Second b"
| "select2 first Disabled Disabled = AllDisabled"
| "select2 first Disabled NotReady = Wait"
| "select2 first NotReady Disabled = Wait"
| "select2 first NotReady NotReady = Wait"

text \<open>\<open>Some(command) = command_rx.recv()\<close>: the pattern does not match \<open>None\<close>.\<close>

definition command_branch :: "'sw world \<Rightarrow> (command \<times> command_channel) branch" where
  "command_branch w =
     (case recv (command_rx w) of
        Ready (Some c, ch) \<Rightarrow> Fires (c, ch)
      | Ready (None, _) \<Rightarrow> Disabled
      | Pending \<Rightarrow> NotReady)"

text \<open>\<open>event = self.swarm.select_next_some()\<close>: the pattern matches every event.\<close>

definition swarm_branch :: "'sw world \<Rightarrow> (swarm_event \<times> swarm_event list) branch" where
  "swarm_branch w =
     (case select_next_some (transport w) of
        Ready (ev, rest) \<Rightarrow> Fires (ev, rest)
      | Pending \<Rightarrow> NotReady)"

datatype 'w flow = Continue 'w | Suspend | Panic

text \<open>The body of \<open>loop { tokio::select! { ... } }\<close>: it has no \<open>break\<close> and no \<open>return\<close>.\<close>

definition loop_iteration :: "'sw deps \<Rightarrow> bool \<Rightarrow> 'sw world \<Rightarrow> 'sw world flow" where
  "loop_iteration d first w =
     (case select2 first (command_branch w) (swarm_branch w) of
        First (c, ch) \<Rightarrow>
          (case handle_command d c (node w) of
             (st, out) \<Rightarrow> Continue (w\<lparr>node := st, command_rx := ch, effects := effects w @ out\<rparr>))
      | Second (ev, rest) \<Rightarrow>
          (case handle_swarm_event d ev (node w) of
             (st, out) \<Rightarrow> Continue (w\<lparr>node := st, transport := rest, effects := effects w @ out\<rparr>))
      | AllDisabled \<Rightarrow> Panic
      | Wait \<Rightarrow> Suspend)"

text \<open>
  The loop of \<open>run\<close>. The value \<open>None\<close> is a call that does not return: the loop goes on, or
  waits in \<open>select!\<close> for input that the world no longer holds. \<open>sched i\<close> is the polling
  order of iteration \<open>i\<close>.
\<close>

datatype 'w outcome = Returned 'w | Panicked

partial_function (option) event_loop ::
  "'sw deps \<Rightarrow> (nat \<Rightarrow> bool) \<Rightarrow> nat \<Rightarrow> 'sw world \<Rightarrow> 'sw world outcome option" where
  "event_loop d sched i w =
     (case loop_iteration d (sched i) w of
        Continue w' \<Rightarrow> event_loop d sched (Suc i) w'
      | Suspend \<Rightarrow> event_loop d sched i w
      | Panic \<Rightarrow> Some Panicked)"

definition run :: "'sw deps \<Rightarrow> (nat \<Rightarrow> bool) \<Rightarrow> 'sw world \<Rightarrow> 'sw world outcome option" where
  "run d sched w = event_loop d sched 0 (w\<lparr>effects := effects w @ [Log Info StartingEventLoop]\<rparr>)"

text \<open>The same loop observed after at most \<open>n\<close> iterations.\<close>

datatype 'w observed = Running 'w | Waiting 'w | Crashed

fun iterations :: "nat \<Rightarrow> 'sw deps \<Rightarrow> (nat \<Rightarrow> bool) \<Rightarrow> nat \<Rightarrow> 'sw world \<Rightarrow> 'sw world observed" where
  "iterations 0 d sched i w = Running w"
| "iterations (Suc n) d sched i w =
     (case loop_iteration d (sched i) w of
        Continue w' \<Rightarrow> iterations n d sched (Suc i) w'
      | Suspend \<Rightarrow> Waiting w
      | Panic \<Rightarrow> Crashed)"

section \<open>Example collaborators\<close>

text \<open>
  Concrete parameters on which the theorems below are instantiated: a small codec, a
  gossipsub that refuses a payload already in its outbox, and a node on the two topics.
\<close>

definition example_block :: "nat \<Rightarrow> block" where
  "example_block h = \<lparr>header = \<lparr>height = h\<rparr>, body = []\<rparr>"

fun field_bytes :: "string \<times> field_value \<Rightarrow> bytes" where
  "field_bytes (name, HeightValue n) = [of_nat (length name), of_nat n]"
| "field_bytes (name, HashValue h) = of_nat (length name) # h"

fun example_to_bytes :: "message \<Rightarrow> error_text + bytes" where
  "example_to_bytes (NewBlock b) = Inr (0 # of_nat (height (header b)) # body b)"
| "example_to_bytes (NewTransaction (Transaction bs)) = Inr (1 # bs)"
| "example_to_bytes (Status named) = Inr (2 # concat (map field_bytes named))"
| "example_to_bytes (GetBlocks s c) = Inr [3, of_nat s, of_nat c]"
| "example_to_bytes (Blocks bs) = Inr (4 # map (\<lambda>b. of_nat (height (header b))) bs)"
| "example_to_bytes GetStatus = Inr [5]"
| "example_to_bytes (Ping n) = Inr [6, of_nat n]"
| "example_to_bytes (Pong n) = Inr [7, of_nat n]"

definition example_from_bytes :: "bytes \<Rightarrow> error_text + message" where
  "example_from_bytes data =
     (case data of
        [] \<Rightarrow> Inl ''empty payload''
      | tag # rest \<Rightarrow>
          if tag = 3 then
            (case rest of [s, c] \<Rightarrow> Inr (GetBlocks (unat s) (unat c)) | _ \<Rightarrow> Inl ''bad length'')
          else if tag = 4 then Inr (Blocks (map (\<lambda>h. example_block (unat h)) rest))
          else if tag = 5 then
            (case rest of [] \<Rightarrow> Inr GetStatus | _ \<Rightarrow> Inl ''bad length'')
          else if tag = 6 then
            (case rest of [n] \<Rightarrow> Inr (Ping (unat n)) | _ \<Rightarrow> Inl ''bad length'')
          else if tag = 7 then
            (case rest of [n] \<Rightarrow> Inr (Pong (unat n)) | _ \<Rightarrow> Inl ''bad length'')
          else Inl ''unknown variant'')"

fun example_message_type :: "message \<Rightarrow> string" where
  "example_message_type (NewBlock _) = ''NewBlock''"
| "example_message_type (NewTransaction _) = ''NewTransaction''"
| "example_message_type (Status _) = ''Status''"
| "example_message_type (GetBlocks _ _) = ''GetBlocks''"
| "example_message_type (Blocks _) = ''Blocks''"
| "example_message_type GetStatus = ''GetStatus''"
| "example_message_type (Ping _) = ''Ping''"
| "example_message_type (Pong _) = ''Pong''"

type_synonym outbox = "(topic \<times> bytes) list"

definition example_publish ::
  "outbox \<Rightarrow> topic \<Rightarrow> bytes \<Rightarrow> (error_text + message_id) \<times> outbox" where
  "example_publish sw t data =
     (if (t, data) \<in> set sw then (Inl ''Duplicate'', sw) else (Inr data, sw @ [(t, data)]))"

definition example_deps :: "outbox deps" where
  "example_deps =
     \<lparr>to_bytes = example_to_bytes, from_bytes = example_from_bytes,
      message_type = example_message_type, publish = example_publish,
      other_arms = (\<lambda>k st. (st, []))\<rparr>"

definition broken_encoder_deps :: "outbox deps" where
  "broken_encoder_deps = example_deps\<lparr>to_bytes := (\<lambda>m. Inl ''encode error'')\<rparr>"

definition example_node :: "outbox node" where
  "example_node =
     \<lparr>swarm = [], peers = [], event_tx = \<lparr>receiver_alive = True, queue = []\<rparr>,
      blocks_topic = ''blocks'', transactions_topic = ''transactions''\<rparr>"

definition command_first :: "nat \<Rightarrow> bool" where
  "command_first i = True"

definition zero_hash :: hash where
  "zero_hash = replicate 32 0"

text \<open>A node whose gossipsub already holds the payloads of four commands: publishing them fails.\<close>

definition duplicate_node :: "outbox node" where
  "duplicate_node =
     example_node\<lparr>swarm := [(''blocks'', [0, 5]), (''transactions'', [1, 1, 2]),
                            (''blocks'', [2, 6, 5, 9, 1, 2]), (''blocks'', [3, 100, 10])]\<rparr>"

text \<open>Every handle dropped, no command buffered, one gossip message (a ping) pending.\<close>

definition closed_world :: "outbox world" where
  "closed_world =
     \<lparr>node = example_node, command_rx = \<lparr>senders = 0, buffered = []\<rparr>,
      transport = [GossipMessage 7 [] [6, 42]], effects = []\<rparr>"

text \<open>One handle alive, one command buffered, an undecodable payload ahead of a valid one.\<close>

definition busy_world :: "outbox world" where
  "busy_world =
     \<lparr>node = example_node,
      command_rx = \<lparr>senders = 1, buffered = [RequestBlocks 9 100 10]\<rparr>,
      transport = [GossipMessage 7 [] [9, 9], GossipMessage 8 [] [4, 10, 11, 12]],
      effects = []\<rparr>"

text \<open>Two commands buffered in front of a gossipsub that refuses both payloads.\<close>

definition jammed_world :: "outbox world" where
  "jammed_world =
     \<lparr>node = duplicate_node,
      command_rx = \<lparr>senders = 1,
        buffered = [RequestBlocks 9 100 10, BroadcastBlock (example_block 5)]\<rparr>,
      transport = [], effects = []\<rparr>"

section \<open>Properties of the loop body\<close>

lemma swarm_branch_enabled: "swarm_branch w \<noteq> Disabled"
  by (simp add: swarm_branch_def select_next_some_def split: list.splits)

lemma select2_not_all_disabled: "b \<noteq> Disabled \<Longrightarrow> select2 first a b \<noteq> AllDisabled"
  by (cases a; cases b) auto

lemma loop_iteration_no_panic: "loop_iteration d first w \<noteq> Panic"
  using select2_not_all_disabled [OF swarm_branch_enabled, of first "command_branch w" w]
  by (auto simp: loop_iteration_def split: selected.splits prod.splits)

text \<open>
  A buffered command is dequeued when the command branch is polled first or no transport
  event is pending; the iteration handles it and the loop goes on.
\<close>

lemma dequeue_command:
  assumes "buffered (command_rx w) = c # cs" and "first \<or> transport w = []"
  shows "loop_iteration d first w =
     Continue (w\<lparr>node := fst (handle_command d c (node w)),
                 command_rx := (command_rx w)\<lparr>buffered := cs\<rparr>,
                 effects := effects w @ snd (handle_command d c (node w))\<rparr>)"
  using assms
  by (auto simp: loop_iteration_def command_branch_def swarm_branch_def recv_def
      select_next_some_def case_prod_beta split: list.splits)

text \<open>
  A pending transport event is taken when the swarm branch is polled first or no command
  is buffered; the iteration handles it and the loop goes on.
\<close>

lemma dequeue_swarm_event:
  assumes "transport w = ev # rest" and "\<not> first \<or> buffered (command_rx w) = []"
  shows "loop_iteration d first w =
     Continue (w\<lparr>node := fst (handle_swarm_event d ev (node w)),
                 transport := rest,
                 effects := effects w @ snd (handle_swarm_event d ev (node w))\<rparr>)"
  using assms
  by (auto simp: loop_iteration_def command_branch_def swarm_branch_def recv_def
      select_next_some_def case_prod_beta split: list.splits)

text \<open>With the command channel closed and drained only the swarm branch is left.\<close>

lemma closed_channel_iteration:
  assumes "senders (command_rx w) = 0" and "buffered (command_rx w) = []"
  shows "loop_iteration d first w =
     (case transport w of
        [] \<Rightarrow> Suspend
      | ev # rest \<Rightarrow>
          Continue (w\<lparr>node := fst (handle_swarm_event d ev (node w)),
                      transport := rest,
                      effects := effects w @ snd (handle_swarm_event d ev (node w))\<rparr>))"
  using assms
  by (auto simp: loop_iteration_def command_branch_def swarm_branch_def recv_def
      select_next_some_def case_prod_beta split: list.splits)

text \<open>The loop has no exit and the swarm branch is never disabled: \<open>event_loop\<close> returns nothing.\<close>

lemma event_loop_no_result:
  assumes "event_loop d sched i w = Some y"
  shows False
proof (rule event_loop.raw_induct [where P = "\<lambda>d sched i w y. False", OF _ assms])
  fix f :: "'a deps \<Rightarrow> (nat \<Rightarrow> bool) \<Rightarrow> nat \<Rightarrow> 'a world \<Rightarrow> 'a world outcome option"
    and d sched i w y
  assume ih: "\<And>d sched i w y. f d sched i w = Some y \<Longrightarrow> False"
    and step: "(case loop_iteration d (sched i) w of
        Continue w' \<Rightarrow> f d sched (Suc i) w'
      | Suspend \<Rightarrow> f d sched i w
      | Panic \<Rightarrow> Some Panicked) = Some y"
  show False
  proof (cases "loop_iteration d (sched i) w")
    case (Continue w')
    with step ih show False by simp
  next
    case Suspend
    with step ih show False by simp
  next
    case Panic
    with loop_iteration_no_panic show False by blast
  qed
qed

lemma event_loop_never_returns: "event_loop d sched i w = None"
  using event_loop_no_result [of d sched i w] by (cases "event_loop d sched i w") auto

section \<open>Properties of the block loop\<close>

lemma for_blocks_effects:
  "snd (for_blocks p bs st) = map (\<lambda>b. Send (BlockReceived p b)) bs"
  by (induction bs arbitrary: st) (simp_all add: emit_def case_prod_beta)

lemma for_blocks_node:
  "fst (for_blocks p bs st) =
     st\<lparr>event_tx :=
          (if receiver_alive (event_tx st)
           then (event_tx st)\<lparr>queue := queue (event_tx st) @ map (BlockReceived p) bs\<rparr>
           else event_tx st)\<rparr>"
  by (induction bs arbitrary: st) (simp_all add: emit_def send_def case_prod_beta)

lemma sent_events_sends: "sent_events (map (\<lambda>b. Send (f b)) bs) = map f bs"
  by (induction bs) auto

section \<open>Command handling: encoding failure\<close>

text \<open>
  C9. When \<open>to_bytes\<close> fails on the message of a command, \<open>handle_command\<close> returns the
  node unchanged and has no effect at all: no publish, no event, no log line. This holds
  for each of the four commands.
\<close>

theorem handle_command_encode_failure:
  "(to_bytes d (NewBlock b) = Inl e \<longrightarrow> handle_command d (BroadcastBlock b) st = (st, []))
   \<and> (to_bytes d (NewTransaction tx) = Inl e \<longrightarrow>
        handle_command d (BroadcastTransaction tx) st = (st, []))
   \<and> (to_bytes d (Status [(''height'', HeightValue h), (''best_hash'', HashValue bh)]) = Inl e \<longrightarrow>
        handle_command d (SendStatus p h bh) st = (st, []))
   \<and> (to_bytes d (GetBlocks s c) = Inl e \<longrightarrow>
        handle_command d (RequestBlocks p s c) st = (st, []))"
  by simp

theorem handle_command_encode_failure_witness:
  "to_bytes broken_encoder_deps (NewBlock (example_block 5)) = Inl ''encode error''
   \<and> to_bytes broken_encoder_deps (NewTransaction (Transaction [1, 2])) = Inl ''encode error''
   \<and> to_bytes broken_encoder_deps
        (Status [(''height'', HeightValue 5), (''best_hash'', HashValue [0, 1])]) =
       Inl ''encode error''
   \<and> to_bytes broken_encoder_deps (GetBlocks 100 10) = Inl ''encode error''
   \<and> handle_command broken_encoder_deps (BroadcastBlock (example_block 5)) example_node
       = (example_node, [])
   \<and> handle_command broken_encoder_deps (BroadcastTransaction (Transaction [1, 2])) example_node
       = (example_node, [])
   \<and> handle_command broken_encoder_deps (SendStatus 9 5 [0, 1]) example_node
       = (example_node, [])
   \<and> handle_command broken_encoder_deps (RequestBlocks 9 100 10) example_node
       = (example_node, [])"
proof -
  have enc: "to_bytes broken_encoder_deps m = Inl ''encode error''" for m
    by (simp add: broken_encoder_deps_def example_deps_def)
  show ?thesis
    using handle_command_encode_failure [of broken_encoder_deps "example_block 5"
        "''encode error''" example_node "Transaction [1, 2]" 5 "[0, 1]" 9 100 10]
    by (simp add: enc)
qed

section \<open>Fan-out of a block batch\<close>

text \<open>
  C1. An inbound gossip message from peer \<open>p\<close> that decodes to \<open>Blocks\<close> with the blocks
  \<open>bs\<close> has exactly these effects: the log line of the receipt, then one send of
  \<open>BlockReceived\<close> per block, in the order of \<open>bs\<close>, each with peer \<open>p\<close>. So as many events
  are sent as there are blocks and no other event is sent. With the receiver alive the
  queue of the event channel grows by exactly these events; with the receiver dropped
  the sends fail and the queue stays as it is.
\<close>

theorem blocks_fan_out:
  assumes "from_bytes d data = Inr (Blocks bs)"
  shows "snd (handle_swarm_event d (GossipMessage p mid data) st) =
           Log Info (Received (message_type d (Blocks bs)) p)
             # map (\<lambda>b. Send (BlockReceived p b)) bs
         \<and> sent_events (snd (handle_swarm_event d (GossipMessage p mid data) st)) =
             map (BlockReceived p) bs
         \<and> length (sent_events (snd (handle_swarm_event d (GossipMessage p mid data) st))) =
             length bs
         \<and> queue (event_tx (fst (handle_swarm_event d (GossipMessage p mid data) st))) =
             (if receiver_alive (event_tx st)
              then queue (event_tx st) @ map (BlockReceived p) bs
              else queue (event_tx st))"
proof -
  have out: "snd (handle_swarm_event d (GossipMessage p mid data) st) =
      Log Info (Received (message_type d (Blocks bs)) p) # snd (for_blocks p bs st)"
    using assms by (simp add: case_prod_beta)
  have st: "fst (handle_swarm_event d (GossipMessage p mid data) st) = fst (for_blocks p bs st)"
    using assms by (simp add: case_prod_beta)
  show ?thesis
    unfolding out st by (simp add: for_blocks_effects for_blocks_node sent_events_sends)
qed

theorem blocks_fan_out_witness:
  "from_bytes example_deps [4, 10, 11, 12]
     = Inr (Blocks [example_block 10, example_block 11, example_block 12])
   \<and> snd (handle_swarm_event example_deps (GossipMessage 7 [] [4, 10, 11, 12]) example_node)
     = [Log Info (Received ''Blocks'' 7),
        Send (BlockReceived 7 (example_block 10)), Send (BlockReceived 7 (example_block 11)),
        Send (BlockReceived 7 (example_block 12))]
   \<and> sent_events (snd (handle_swarm_event example_deps (GossipMessage 7 [] [4, 10, 11, 12])
        example_node))
     = [BlockReceived 7 (example_block 10), BlockReceived 7 (example_block 11),
        BlockReceived 7 (example_block 12)]
   \<and> queue (event_tx (fst (handle_swarm_event example_deps
        (GossipMessage 7 [] [4, 10, 11, 12]) example_node)))
     = [BlockReceived 7 (example_block 10), BlockReceived 7 (example_block 11),
        BlockReceived 7 (example_block 12)]"
proof -
  have h: "from_bytes example_deps [4, 10, 11, 12]
     = Inr (Blocks [example_block 10, example_block 11, example_block 12])"
    by (simp add: example_deps_def example_from_bytes_def)
  have t: "message_type example_deps
      (Blocks [example_block 10, example_block 11, example_block 12]) = ''Blocks''"
    by (simp add: example_deps_def)
  have n: "receiver_alive (event_tx example_node) \<and> queue (event_tx example_node) = []"
    by (simp add: example_node_def)
  show ?thesis
    using h blocks_fan_out [OF h, of 7 "[]" example_node] unfolding t by (simp add: n)
qed

section \<open>The run loop and the closed command channel\<close>

text \<open>
  C2, as stated, fails. In \<open>closed_world\<close> every sender of the command channel has been
  dropped and a transport event is pending, and \<open>run\<close> does not return: after three
  iterations at most, the loop has handled the pending ping and waits in \<open>select!\<close> for
  the next transport event.
\<close>

theorem run_closed_channel_counterexample:
  "senders (command_rx closed_world) = 0
   \<and> transport closed_world = [GossipMessage 7 [] [6, 42]]
   \<and> run example_deps command_first closed_world = None
   \<and> iterations 3 example_deps command_first 0 closed_world =
       Waiting (closed_world\<lparr>transport := [],
         effects := [Log Info (Received ''Ping'' 7), Log Info (ReceivedPing 7 42)]\<rparr>)"
  by (simp add: run_def event_loop_never_returns numeral_3_eq_3 closed_world_def
      loop_iteration_def command_branch_def swarm_branch_def recv_def select_next_some_def
      example_deps_def example_from_bytes_def)

text \<open>
  C2, amended. \<open>run\<close> never returns and no iteration panics, whatever the channels hold
  and whatever the polling order: the loop has no stopped state and no stop command.
  Once every sender of the command channel has been dropped and its buffer is empty, the
  command branch is disabled and an iteration either handles the next pending transport
  event and continues, or waits for one.
\<close>

theorem run_never_returns:
  "run d sched w = None
   \<and> loop_iteration d first w \<noteq> Panic
   \<and> (senders (command_rx w) = 0 \<and> buffered (command_rx w) = [] \<longrightarrow>
        loop_iteration d first w =
          (case transport w of
             [] \<Rightarrow> Suspend
           | ev # rest \<Rightarrow>
               Continue (w\<lparr>node := fst (handle_swarm_event d ev (node w)),
                           transport := rest,
                           effects := effects w @ snd (handle_swarm_event d ev (node w))\<rparr>)))"
  using closed_channel_iteration [of w d first]
  by (simp add: run_def event_loop_never_returns loop_iteration_no_panic)

theorem run_never_returns_witness:
  "senders (command_rx closed_world) = 0 \<and> buffered (command_rx closed_world) = []
   \<and> run example_deps command_first closed_world = None
   \<and> loop_iteration example_deps True closed_world =
       Continue (closed_world\<lparr>transport := [],
         effects := [Log Info (Received ''Ping'' 7), Log Info (ReceivedPing 7 42)]\<rparr>)
   \<and> loop_iteration example_deps True (closed_world\<lparr>transport := []\<rparr>) = Suspend"
proof -
  have c: "senders (command_rx closed_world) = 0 \<and> buffered (command_rx closed_world) = []"
    by (simp add: closed_world_def)
  have c': "senders (command_rx (closed_world\<lparr>transport := []\<rparr>)) = 0
      \<and> buffered (command_rx (closed_world\<lparr>transport := []\<rparr>)) = []"
    by (simp add: closed_world_def)
  show ?thesis
    using c run_never_returns [of example_deps command_first closed_world True]
      c' run_never_returns [of example_deps command_first "closed_world\<lparr>transport := []\<rparr>" True]
    by (simp add: closed_world_def example_deps_def example_from_bytes_def)
qed

section \<open>Undecodable payloads\<close>

text \<open>
  C4. When \<open>from_bytes\<close> fails on the payload of an inbound gossip message, the handler
  returns the node unchanged, sends no event, and its only effect is one warning that
  names the peer and the error. As the node is unchanged, every later transport event and
  every later command is handled exactly as if the payload had never arrived. The loop
  iteration that takes the message from the transport continues with the rest of it.
\<close>

theorem decode_failure_dropped:
  assumes "from_bytes d data = Inl e"
  shows "handle_swarm_event d (GossipMessage p mid data) st =
           (st, [Log Warn (FailedToDeserialize p e)])
     \<and> sent_events (snd (handle_swarm_event d (GossipMessage p mid data) st)) = []
     \<and> handle_swarm_event d ev' (fst (handle_swarm_event d (GossipMessage p mid data) st)) =
         handle_swarm_event d ev' st
     \<and> handle_command d c (fst (handle_swarm_event d (GossipMessage p mid data) st)) =
         handle_command d c st
     \<and> (transport w = GossipMessage p mid data # rest
          \<and> (\<not> first \<or> buffered (command_rx w) = []) \<longrightarrow>
         loop_iteration d first w =
           Continue (w\<lparr>transport := rest,
                       effects := effects w @ [Log Warn (FailedToDeserialize p e)]\<rparr>))"
proof -
  have h: "handle_swarm_event d (GossipMessage p mid data) st' =
      (st', [Log Warn (FailedToDeserialize p e)])" for st'
    using assms by simp
  show ?thesis
    using dequeue_swarm_event [of w "GossipMessage p mid data" rest first d]
    unfolding h by auto
qed

theorem decode_failure_dropped_witness:
  "from_bytes example_deps [9, 9] = Inl ''unknown variant''
   \<and> handle_swarm_event example_deps (GossipMessage 7 [] [9, 9]) example_node =
       (example_node, [Log Warn (FailedToDeserialize 7 ''unknown variant'')])
   \<and> transport busy_world = [GossipMessage 7 [] [9, 9], GossipMessage 8 [] [4, 10, 11, 12]]
   \<and> loop_iteration example_deps False busy_world =
       Continue (busy_world\<lparr>transport := [GossipMessage 8 [] [4, 10, 11, 12]],
         effects := [Log Warn (FailedToDeserialize 7 ''unknown variant'')]\<rparr>)
   \<and> sent_events (snd (handle_swarm_event example_deps (GossipMessage 8 [] [4, 10, 11, 12])
         (fst (handle_swarm_event example_deps (GossipMessage 7 [] [9, 9]) example_node)))) =
       [BlockReceived 8 (example_block 10), BlockReceived 8 (example_block 11),
        BlockReceived 8 (example_block 12)]"
proof -
  have h: "from_bytes example_deps [9, 9] = Inl ''unknown variant''"
    by (simp add: example_deps_def example_from_bytes_def)
  have t: "transport busy_world =
      [GossipMessage 7 [] [9, 9], GossipMessage 8 [] [4, 10, 11, 12]]"
    by (simp add: busy_world_def)
  have g: "sent_events (snd (handle_swarm_event example_deps
      (GossipMessage 8 [] [4, 10, 11, 12]) example_node)) =
       [BlockReceived 8 (example_block 10), BlockReceived 8 (example_block 11),
        BlockReceived 8 (example_block 12)]"
    by (simp add: example_deps_def example_from_bytes_def emit_def case_prod_beta)
  have e: "effects busy_world = []"
    by (simp add: busy_world_def)
  show ?thesis
    using h t g
      decode_failure_dropped [OF h, of 7 "[]" example_node "GossipMessage 8 [] [4, 10, 11, 12]"
        "RequestBlocks 9 100 10" busy_world "[GossipMessage 8 [] [4, 10, 11, 12]]" False]
    by (simp add: e)
qed

section \<open>Block requests\<close>

text \<open>
  C5. For a command \<open>RequestBlocks\<close> with start height \<open>s\<close> and count \<open>c\<close>, where \<open>data\<close> is
  the encoding of \<open>GetBlocks s c\<close>, the handler calls publish exactly once, with \<open>data\<close> on
  the blocks topic of the node. The state of the event channel plays no part: with any
  event channel \<open>ch\<close> in place of the node's, dropped receiver included, the effects are
  the same and the node after the call differs in that channel only. The loop iteration
  that dequeues the command runs this handler and continues.
\<close>

theorem request_blocks_publishes:
  assumes "to_bytes d (GetBlocks s c) = Inr data"
  shows "publish_calls (snd (handle_command d (RequestBlocks p s c) st)) =
           [(blocks_topic st, data)]
    \<and> snd (handle_command d (RequestBlocks p s c) (st\<lparr>event_tx := ch\<rparr>)) =
        snd (handle_command d (RequestBlocks p s c) st)
    \<and> fst (handle_command d (RequestBlocks p s c) (st\<lparr>event_tx := ch\<rparr>)) =
        (fst (handle_command d (RequestBlocks p s c) st))\<lparr>event_tx := ch\<rparr>
    \<and> (buffered (command_rx w) = RequestBlocks p s c # cs \<and> (first \<or> transport w = []) \<longrightarrow>
        loop_iteration d first w =
          Continue (w\<lparr>node := fst (handle_command d (RequestBlocks p s c) (node w)),
                      command_rx := (command_rx w)\<lparr>buffered := cs\<rparr>,
                      effects := effects w @ snd (handle_command d (RequestBlocks p s c) (node w))\<rparr>))"
proof -
  have a: "publish_calls (snd (handle_command d (RequestBlocks p s c) st')) =
      [(blocks_topic st', data)]" for st' :: "'a node"
    using assms by (auto simp: gossipsub_publish_def split: prod.splits sum.splits)
  have b: "snd (handle_command d (RequestBlocks p s c) (st\<lparr>event_tx := ch\<rparr>)) =
        snd (handle_command d (RequestBlocks p s c) st)"
    using assms by (auto simp: gossipsub_publish_def split: prod.splits sum.splits)
  have c: "fst (handle_command d (RequestBlocks p s c) (st\<lparr>event_tx := ch\<rparr>)) =
        (fst (handle_command d (RequestBlocks p s c) st))\<lparr>event_tx := ch\<rparr>"
    using assms by (auto simp: gossipsub_publish_def split: prod.splits sum.splits)
  show ?thesis
    using a b c dequeue_command [of w "RequestBlocks p s c" cs first d] by blast
qed

theorem request_blocks_publishes_witness:
  "to_bytes example_deps (GetBlocks 100 10) = Inr [3, 100, 10]
   \<and> publish_calls (snd (handle_command example_deps (RequestBlocks 9 100 10)
        (example_node\<lparr>event_tx := \<lparr>receiver_alive = False, queue = []\<rparr>\<rparr>))) =
       [(''blocks'', [3, 100, 10])]
   \<and> buffered (command_rx busy_world) = [RequestBlocks 9 100 10]
   \<and> loop_iteration example_deps True busy_world =
       Continue (busy_world\<lparr>node := example_node\<lparr>swarm := [(''blocks'', [3, 100, 10])]\<rparr>,
         command_rx := \<lparr>senders = 1, buffered = []\<rparr>,
         effects := [Publish ''blocks'' [3, 100, 10]]\<rparr>)"
proof -
  have h: "to_bytes example_deps (GetBlocks 100 10) = Inr [3, 100, 10]"
    by (simp add: example_deps_def)
  have b: "buffered (command_rx busy_world) = [RequestBlocks 9 100 10]"
    by (simp add: busy_world_def)
  show ?thesis
    using h b
      request_blocks_publishes [OF h, of 9
        "example_node\<lparr>event_tx := \<lparr>receiver_alive = False, queue = []\<rparr>\<rparr>"
        "\<lparr>receiver_alive = False, queue = []\<rparr>" busy_world "[]" True]
    by (simp add: example_deps_def gossipsub_publish_def example_publish_def example_node_def
        busy_world_def)
qed

section \<open>The status message of a command\<close>

text \<open>
  C6. Evaluation of \<open>handle_command\<close> on \<open>SendStatus\<close> for peer 9, height 5 and the zero
  hash. The payload published on the blocks topic is the encoding of the value that the
  source builds, a \<open>Status\<close> with the fields \<open>height\<close> and \<open>best_hash\<close>. That value has no
  field \<open>best_block_hash\<close>, the field of the variant that the gossip arm matches, and under
  the example codec its bytes differ from those of a \<open>Status\<close> with \<open>height\<close> and
  \<open>best_block_hash\<close>.
\<close>

theorem send_status_field_mismatch:
  "handle_command example_deps (SendStatus 9 5 zero_hash) example_node =
     (example_node\<lparr>swarm := [(''blocks'', [2, 6, 5, 9] @ zero_hash)]\<rparr>,
      [Publish ''blocks'' ([2, 6, 5, 9] @ zero_hash)])
   \<and> to_bytes example_deps (Status [(''height'', HeightValue 5), (''best_hash'', HashValue zero_hash)]) =
       Inr ([2, 6, 5, 9] @ zero_hash)
   \<and> to_bytes example_deps
        (Status [(''height'', HeightValue 5), (''best_block_hash'', HashValue zero_hash)]) =
       Inr ([2, 6, 5, 15] @ zero_hash)
   \<and> map_of [(''height'', HeightValue 5), (''best_hash'', HashValue zero_hash)] ''best_block_hash'' = None"
  by (simp add: example_deps_def gossipsub_publish_def example_publish_def example_node_def)

section \<open>Messages that are only logged\<close>

text \<open>
  C7. An inbound gossip message that decodes to \<open>GetStatus\<close>, \<open>Ping\<close> or \<open>Pong\<close> leaves the
  node unchanged and has two effects, both log lines at level info: the line of the
  receipt and the line of the variant. No event is sent and publish is not called, so a
  ping is not answered with a pong.
\<close>

theorem inert_messages:
  "(from_bytes d data = Inr GetStatus \<longrightarrow>
      handle_swarm_event d (GossipMessage p mid data) st =
        (st, [Log Info (Received (message_type d GetStatus) p),
              Log Info (ReceivedGetStatus p)]))
   \<and> (from_bytes d data = Inr (Ping n) \<longrightarrow>
      handle_swarm_event d (GossipMessage p mid data) st =
        (st, [Log Info (Received (message_type d (Ping n)) p),
              Log Info (ReceivedPing p n)]))
   \<and> (from_bytes d data = Inr (Pong n) \<longrightarrow>
      handle_swarm_event d (GossipMessage p mid data) st =
        (st, [Log Info (Received (message_type d (Pong n)) p),
              Log Info (ReceivedPong p n)]))
   \<and> (from_bytes d data \<in> {Inr GetStatus, Inr (Ping n), Inr (Pong n)} \<longrightarrow>
      sent_events (snd (handle_swarm_event d (GossipMessage p mid data) st)) = []
      \<and> publish_calls (snd (handle_swarm_event d (GossipMessage p mid data) st)) = [])"
  by auto

theorem inert_messages_witness:
  "from_bytes example_deps [5] = Inr GetStatus
   \<and> from_bytes example_deps [6, 42] = Inr (Ping 42)
   \<and> from_bytes example_deps [7, 42] = Inr (Pong 42)
   \<and> handle_swarm_event example_deps (GossipMessage 7 [] [5]) example_node =
       (example_node, [Log Info (Received ''GetStatus'' 7), Log Info (ReceivedGetStatus 7)])
   \<and> handle_swarm_event example_deps (GossipMessage 7 [] [6, 42]) example_node =
       (example_node, [Log Info (Received ''Ping'' 7), Log Info (ReceivedPing 7 42)])
   \<and> handle_swarm_event example_deps (GossipMessage 7 [] [7, 42]) example_node =
       (example_node, [Log Info (Received ''Pong'' 7), Log Info (ReceivedPong 7 42)])
   \<and> sent_events (snd (handle_swarm_event example_deps (GossipMessage 7 [] [6, 42])
        example_node)) = []
   \<and> publish_calls (snd (handle_swarm_event example_deps (GossipMessage 7 [] [6, 42])
        example_node)) = []"
proof -
  have h: "from_bytes example_deps [5] = Inr GetStatus
      \<and> from_bytes example_deps [6, 42] = Inr (Ping 42)
      \<and> from_bytes example_deps [7, 42] = Inr (Pong 42)"
    by (simp add: example_deps_def example_from_bytes_def)
  have t: "message_type example_deps GetStatus = ''GetStatus''
      \<and> message_type example_deps (Ping 42) = ''Ping''
      \<and> message_type example_deps (Pong 42) = ''Pong''"
    by (simp add: example_deps_def)
  show ?thesis
    using h t
      inert_messages [of example_deps "[5]" 7 "[]" example_node 42]
      inert_messages [of example_deps "[6, 42]" 7 "[]" example_node 42]
      inert_messages [of example_deps "[7, 42]" 7 "[]" example_node 42]
    by simp
qed

section \<open>Publish failures\<close>

text \<open>
  C8. When the message of a command encodes to \<open>data\<close> and publish fails with error \<open>e\<close>,
  leaving the swarm \<open>sw\<close>, the handler returns the node with that swarm and has exactly
  two effects: the one publish call (there is no second attempt) and one warning with \<open>e\<close>.
  No event is sent and nothing goes back to the sender of the command. This holds for
  each of the four commands. The loop iteration that dequeues a command removes it from
  the buffer of the channel, runs the handler and continues, whatever the handler did.
\<close>

theorem publish_failure_non_fatal:
  "(to_bytes d (NewBlock b) = Inr data
      \<and> publish d (swarm st) (blocks_topic st) data = (Inl e, sw) \<longrightarrow>
      handle_command d (BroadcastBlock b) st =
        (st\<lparr>swarm := sw\<rparr>,
         [Publish (blocks_topic st) data, Log Warn (FailedToBroadcastBlock e)]))
   \<and> (to_bytes d (NewTransaction tx) = Inr data
      \<and> publish d (swarm st) (transactions_topic st) data = (Inl e, sw) \<longrightarrow>
      handle_command d (BroadcastTransaction tx) st =
        (st\<lparr>swarm := sw\<rparr>,
         [Publish (transactions_topic st) data, Log Warn (FailedToBroadcastTransaction e)]))
   \<and> (to_bytes d (Status [(''height'', HeightValue h), (''best_hash'', HashValue bh)]) = Inr data
      \<and> publish d (swarm st) (blocks_topic st) data = (Inl e, sw) \<longrightarrow>
      handle_command d (SendStatus p h bh) st =
        (st\<lparr>swarm := sw\<rparr>,
         [Publish (blocks_topic st) data, Log Warn (FailedToSendStatus e)]))
   \<and> (to_bytes d (GetBlocks s c) = Inr data
      \<and> publish d (swarm st) (blocks_topic st) data = (Inl e, sw) \<longrightarrow>
      handle_command d (RequestBlocks p s c) st =
        (st\<lparr>swarm := sw\<rparr>,
         [Publish (blocks_topic st) data, Log Warn (FailedToRequestBlocks e)]))
   \<and> (buffered (command_rx w) = cmd # cs \<and> (first \<or> transport w = []) \<longrightarrow>
      loop_iteration d first w =
        Continue (w\<lparr>node := fst (handle_command d cmd (node w)),
                    command_rx := (command_rx w)\<lparr>buffered := cs\<rparr>,
                    effects := effects w @ snd (handle_command d cmd (node w))\<rparr>))"
  using dequeue_command [of w cmd cs first d]
  by (simp add: gossipsub_publish_def)

theorem publish_failure_non_fatal_witness:
  "publish example_deps (swarm duplicate_node) ''blocks'' [3, 100, 10] =
     (Inl ''Duplicate'', swarm duplicate_node)
   \<and> handle_command example_deps (BroadcastBlock (example_block 5)) duplicate_node =
       (duplicate_node, [Publish ''blocks'' [0, 5], Log Warn (FailedToBroadcastBlock ''Duplicate'')])
   \<and> handle_command example_deps (BroadcastTransaction (Transaction [1, 2])) duplicate_node =
       (duplicate_node,
        [Publish ''transactions'' [1, 1, 2], Log Warn (FailedToBroadcastTransaction ''Duplicate'')])
   \<and> handle_command example_deps (SendStatus 9 5 [1, 2]) duplicate_node =
       (duplicate_node,
        [Publish ''blocks'' [2, 6, 5, 9, 1, 2], Log Warn (FailedToSendStatus ''Duplicate'')])
   \<and> handle_command example_deps (RequestBlocks 9 100 10) duplicate_node =
       (duplicate_node,
        [Publish ''blocks'' [3, 100, 10], Log Warn (FailedToRequestBlocks ''Duplicate'')])
   \<and> loop_iteration example_deps True jammed_world =
       Continue (jammed_world\<lparr>
         command_rx := \<lparr>senders = 1, buffered = [BroadcastBlock (example_block 5)]\<rparr>,
         effects := [Publish ''blocks'' [3, 100, 10],
                     Log Warn (FailedToRequestBlocks ''Duplicate'')]\<rparr>)"
proof -
  note inst = publish_failure_non_fatal [of example_deps "example_block 5" _ duplicate_node
      "''Duplicate''" "swarm duplicate_node" "Transaction [1, 2]" 5 "[1, 2]" 9 100 10
      jammed_world "RequestBlocks 9 100 10" "[BroadcastBlock (example_block 5)]" True]
  show ?thesis
    using inst [of "[0, 5]"] inst [of "[1, 1, 2]"] inst [of "[2, 6, 5, 9, 1, 2]"]
      inst [of "[3, 100, 10]"]
    by (simp add: example_deps_def example_publish_def gossipsub_publish_def
        duplicate_node_def example_node_def jammed_world_def example_block_def
        loop_iteration_def command_branch_def swarm_branch_def recv_def select_next_some_def)
qed

section \<open>The peer named in a command\<close>

text \<open>
  C10. \<open>SendStatus\<close> and \<open>RequestBlocks\<close> do not use their peer: two commands that differ
  in the peer only give the same node and the same effects. What is published, if the
  encoding succeeds, is one payload on the blocks topic of the node.
\<close>

theorem peer_id_ignored:
  "handle_command d (SendStatus p h bh) st = handle_command d (SendStatus q h bh) st
   \<and> handle_command d (RequestBlocks p s c) st = handle_command d (RequestBlocks q s c) st
   \<and> publish_calls (snd (handle_command d (SendStatus p h bh) st)) =
       (case to_bytes d (Status [(''height'', HeightValue h), (''best_hash'', HashValue bh)]) of
          Inr data \<Rightarrow> [(blocks_topic st, data)] | Inl e \<Rightarrow> [])
   \<and> publish_calls (snd (handle_command d (RequestBlocks p s c) st)) =
       (case to_bytes d (GetBlocks s c) of
          Inr data \<Rightarrow> [(blocks_topic st, data)] | Inl e \<Rightarrow> [])"
  by (auto simp: gossipsub_publish_def split: prod.splits sum.splits)

end
